theory Spec2Isabelle
  imports Main
begin

section \<open>JavaScript values\<close>

text \<open>
  The request wrapper of \<^verbatim>\<open>packages/axios\<close> inspects values whose static type is
  \<^verbatim>\<open>unknown\<close> or \<^verbatim>\<open>any\<close>: response bodies parsed from JSON and
  whatever a \<^verbatim>\<open>catch\<close> clause receives. They are modelled by a datatype of
  JavaScript values. Numbers are restricted to the integers (HTTP status codes and business
  codes); an object is the association list of its own properties, in which the first
  binding of a key is the property's value.
\<close>

datatype jsval =
    JUndefined
  | JNull
  | JBool bool
  | JNum int
  | JStr string
  | JArr "jsval list"
  | JObj "(string \<times> jsval) list"

text \<open>ToBoolean: what \<^verbatim>\<open>if (v)\<close> and \<^verbatim>\<open>v || w\<close> test.\<close>

fun truthy :: "jsval \<Rightarrow> bool" where
  "truthy JUndefined = False"
| "truthy JNull = False"
| "truthy (JBool b) = b"
| "truthy (JNum n) = (n \<noteq> 0)"
| "truthy (JStr s) = (s \<noteq> [])"
| "truthy (JArr xs) = True"
| "truthy (JObj fs) = True"

subsection \<open>Responses, thrown values, settled promises\<close>

text \<open>
  \<^verbatim>\<open>AxiosResponse\<close>: the parsed body \<^verbatim>\<open>data\<close> and the HTTP status.
\<close>

record AxiosResponse =
  data :: jsval
  status :: int

text \<open>
  \<^verbatim>\<open>AxiosError\<close>: the fields the wrapper and its retry condition read. \<open>message\<close>
  is the transport's message, \<open>code\<close> the transport's error code when there is one
  (\<^verbatim>\<open>ECONNREFUSED\<close>, \<^verbatim>\<open>ECONNABORTED\<close>), \<open>config_method\<close> the verb of the request
  that failed (\<^verbatim>\<open>error.config.method\<close>), \<open>response\<close> the server's answer when one
  arrived.
\<close>

record AxiosError =
  message :: string
  code :: "string option"
  config_method :: string
  response :: "AxiosResponse option"

text \<open>
  What a \<^verbatim>\<open>catch (error: unknown)\<close> can receive, by the two tests the code applies
  to it: \<^verbatim>\<open>axios.isAxiosError(error)\<close> holds of \<open>ThrownAxiosError\<close> only;
  \<^verbatim>\<open>error instanceof Error\<close> holds of \<open>ThrownError\<close> too (any other exception
  object, with its \<^verbatim>\<open>message\<close>); \<open>ThrownValue\<close> is any other thrown value
  (\<^verbatim>\<open>throw null\<close>, \<^verbatim>\<open>throw 'text'\<close>).
\<close>

datatype thrown =
    ThrownAxiosError AxiosError
  | ThrownError string
  | ThrownValue jsval

text \<open>
  A settled promise, which is also the outcome of an \<^verbatim>\<open>async\<close> function or of a
  function that may throw: \<open>Inl\<close> is a rejection (a throw), \<open>Inr\<close> a fulfilment (a return).
\<close>

type_synonym 'a promise = "thrown + 'a"

section \<open>The response envelope\<close>

text \<open>
  \<^verbatim>\<open>interface BaseResponse<T> { data: T; msg: string; code: number }\<close>: the shape as a
  predicate on values. The field \<^verbatim>\<open>data\<close> is present with any value, \<^verbatim>\<open>msg\<close> is
  a string and \<^verbatim>\<open>code\<close> is a number.
\<close>

fun is_string :: "jsval option \<Rightarrow> bool" where
  "is_string (Some (JStr s)) = True"
| "is_string v = False"

fun is_number :: "jsval option \<Rightarrow> bool" where
  "is_number (Some (JNum n)) = True"
| "is_number v = False"

fun is_present :: "jsval option \<Rightarrow> bool" where
  "is_present (Some v) = True"
| "is_present None = False"

fun BaseResponse :: "jsval \<Rightarrow> bool" where
  "BaseResponse (JObj fs) =
     (is_present (map_of fs ''data'') \<and> is_string (map_of fs ''msg'') \<and>
      is_number (map_of fs ''code''))"
| "BaseResponse v = False"

text \<open>
  The envelope of a failure as the spec describes it: \<^verbatim>\<open>data\<close> is \<^verbatim>\<open>null\<close>,
  \<^verbatim>\<open>msg\<close> a string, \<^verbatim>\<open>code\<close> a number.
\<close>

fun error_envelope :: "jsval \<Rightarrow> bool" where
  "error_envelope (JObj fs) =
     (map_of fs ''data'' = Some JNull \<and> is_string (map_of fs ''msg'') \<and>
      is_number (map_of fs ''code''))"
| "error_envelope v = False"

section \<open>The error normalizer\<close>

text \<open>
  The two fallback messages of \<^verbatim>\<open>handleError\<close> are Chinese text; a \<^typ>\<open>string\<close>
  holds bytes, so they are written as their UTF-8 encoding.
\<close>

definition msg_request_error :: string where
  "msg_request_error =
     [CHR 0xE8, CHR 0xAF, CHR 0xB7, CHR 0xE6, CHR 0xB1, CHR 0x82, CHR 0xE5, CHR 0x8F, CHR 0x91,
      CHR 0xE7, CHR 0x94, CHR 0x9F, CHR 0xE9, CHR 0x94, CHR 0x99, CHR 0xE8, CHR 0xAF, CHR 0xAF]"

definition msg_unknown_error :: string where
  "msg_unknown_error =
     [CHR 0xE6, CHR 0x9C, CHR 0xAA, CHR 0xE7, CHR 0x9F, CHR 0xA5, CHR 0xE9, CHR 0x94, CHR 0x99,
      CHR 0xE8, CHR 0xAF, CHR 0xAF]"

text \<open>
  \<^verbatim>\<open>axiosError.response?.data\<close> and \<^verbatim>\<open>axiosError.response?.status\<close>: optional
  chaining gives \<^verbatim>\<open>undefined\<close> when there is no response.
\<close>

definition response_data :: "AxiosResponse option \<Rightarrow> jsval" where
  "response_data res = (case res of None \<Rightarrow> JUndefined | Some r \<Rightarrow> data r)"

definition response_status :: "AxiosResponse option \<Rightarrow> jsval" where
  "response_status res = (case res of None \<Rightarrow> JUndefined | Some r \<Rightarrow> JNum (status r))"

text \<open>
  \<^verbatim>\<open>handleError\<close>, branch by branch. The object literals list their fields in the
  source's order (\<^verbatim>\<open>msg\<close>, \<^verbatim>\<open>code\<close>, \<^verbatim>\<open>data\<close>).
\<close>

fun handleError :: "thrown \<Rightarrow> jsval" where
  "handleError (ThrownAxiosError axiosError) =
     (if truthy (response_data (response axiosError)) then response_data (response axiosError)
      else JObj [(''msg'', JStr (if message axiosError \<noteq> [] then message axiosError
                                 else msg_request_error)),
                 (''code'', (if truthy (response_status (response axiosError))
                             then response_status (response axiosError) else JNum 500)),
                 (''data'', JNull)])"
| "handleError (ThrownError error_message) =
     JObj [(''msg'', JStr error_message), (''code'', JNum 500), (''data'', JNull)]"
| "handleError (ThrownValue v) =
     JObj [(''msg'', JStr msg_unknown_error), (''code'', JNum 500), (''data'', JNull)]"

section \<open>The client factory\<close>

text \<open>
  \<^verbatim>\<open>CreateApiOptions\<close>. An optional member is an \<open>option\<close>. \<open>getToken\<close> returns a
  string or \<^verbatim>\<open>null\<close> (\<open>None\<close>). The hook \<open>onUnauthorized\<close> is opaque apart from how its
  call ends: it returns, or it throws.
\<close>

datatype callback = Returns | Throws thrown

record CreateApiOptions =
  baseURL :: string
  getToken :: "(unit \<Rightarrow> string option) option"
  onUnauthorized :: "callback option"

text \<open>
  A template literal converts the interpolated value with ToString: \<^verbatim>\<open>null\<close> becomes
  the four characters \<^verbatim>\<open>null\<close>, a string stays as it is.
\<close>

definition to_string :: "string option \<Rightarrow> string" where
  "to_string v = (case v of None \<Rightarrow> ''null'' | Some s \<Rightarrow> s)"

text \<open>
  \<^verbatim>\<open>const headers = { 'Content-Type': ..., ...(options.getToken && { Authorization: ... }) }\<close>.
  Spreading \<^verbatim>\<open>undefined\<close> adds nothing; a function is truthy, so a supplied
  \<open>getToken\<close> is called and its result interpolated.
\<close>

definition createApi_headers :: "CreateApiOptions \<Rightarrow> (string \<times> string) list" where
  "createApi_headers options =
     (''Content-Type'', ''application/json'') #
     (case getToken options of
        None \<Rightarrow> []
      | Some f \<Rightarrow> [(''Authorization'', ''Bearer '' @ to_string (f ()))])"

text \<open>
  \<^verbatim>\<open>CreateAxiosDefaults\<close> as \<^verbatim>\<open>axiosConfig\<close> fills it. The serializer of query
  parameters is \<^verbatim>\<open>qs.stringify\<close> with an array format; the format's name stands for it.
\<close>

record CreateAxiosDefaults =
  baseURL :: string
  headers :: "(string \<times> string) list"
  timeout :: nat
  paramsSerializer :: string

definition axiosConfig :: "CreateApiOptions \<Rightarrow> CreateAxiosDefaults" where
  "axiosConfig options =
     \<lparr>CreateAxiosDefaults.baseURL = CreateApiOptions.baseURL options,
      headers = createApi_headers options,
      timeout = 10000,
      paramsSerializer = ''brackets''\<rparr>"

subsection \<open>The retry configuration\<close>

text \<open>
  The options object handed to \<^verbatim>\<open>axiosRetry\<close>. The retry condition delegates to the
  library's predicate \<^verbatim>\<open>axiosRetry.isNetworkOrIdempotentRequestError\<close>, which is a
  parameter here.
\<close>

record IAxiosRetryConfig =
  retries :: nat
  retryDelay :: "nat \<Rightarrow> nat"
  retryCondition :: "AxiosError \<Rightarrow> bool"

definition retryConfig :: "(AxiosError \<Rightarrow> bool) \<Rightarrow> IAxiosRetryConfig" where
  "retryConfig isNetworkOrIdempotentRequestError =
     \<lparr>retries = 3,
      retryDelay = (\<lambda>retryCount. retryCount * 1000),
      retryCondition = (\<lambda>error. isNetworkOrIdempotentRequestError error)\<rparr>"

subsection \<open>The response interceptor\<close>

text \<open>
  Reading \<^verbatim>\<open>.code\<close> of a body. On \<^verbatim>\<open>null\<close> and \<^verbatim>\<open>undefined\<close> the read throws
  a TypeError (the message is V8's); an object gives its property or \<^verbatim>\<open>undefined\<close>; a
  boolean, a number, a string and an array have no property of that name.
\<close>

definition cannot_read :: "string \<Rightarrow> string" where
  "cannot_read what =
     ''Cannot read properties of '' @ what @ '' (reading '' @ [CHR 0x27] @ ''code'' @
     [CHR 0x27] @ '')''"

fun read_code :: "jsval \<Rightarrow> jsval promise" where
  "read_code JUndefined = Inl (ThrownError (cannot_read ''undefined''))"
| "read_code JNull = Inl (ThrownError (cannot_read ''null''))"
| "read_code (JObj fs) = Inr (case map_of fs ''code'' of None \<Rightarrow> JUndefined | Some v \<Rightarrow> v)"
| "read_code v = Inr JUndefined"

text \<open>
  \<^verbatim>\<open>options.onUnauthorized?.()\<close>, with the number of calls of the hook made so far as the
  state: an absent hook is not called; a hook that throws ends the handler with its error.
\<close>

definition call_onUnauthorized :: "CreateApiOptions \<Rightarrow> nat \<Rightarrow> unit promise \<times> nat" where
  "call_onUnauthorized options calls =
     (case onUnauthorized options of
        None \<Rightarrow> (Inr (), calls)
      | Some Returns \<Rightarrow> (Inr (), Suc calls)
      | Some (Throws e) \<Rightarrow> (Inl e, Suc calls))"

text \<open>
  The two handlers given to \<^verbatim>\<open>api.interceptors.response.use\<close>. \<^verbatim>\<open>===\<close> against the
  number 401 holds of that number only.
\<close>

definition onFulfilled ::
  "CreateApiOptions \<Rightarrow> AxiosResponse \<Rightarrow> nat \<Rightarrow> AxiosResponse promise \<times> nat" where
  "onFulfilled options res calls =
     (case read_code (data res) of
        Inl e \<Rightarrow> (Inl e, calls)
      | Inr c \<Rightarrow>
          if c = JNum 401 then
            (case call_onUnauthorized options calls of
               (Inl e, calls') \<Rightarrow> (Inl e, calls')
             | (Inr u, calls') \<Rightarrow> (Inr res, calls'))
          else (Inr res, calls))"

definition onRejected :: "thrown \<Rightarrow> AxiosResponse promise" where
  "onRejected error = Inl error"

subsection \<open>The instance\<close>

text \<open>
  \<^verbatim>\<open>AxiosRequestConfig\<close> is an options object the wrapper passes on unread; an optional
  argument is an \<open>option\<close>. \<^verbatim>\<open>AxiosInstance\<close> holds what \<^verbatim>\<open>createApi\<close> sets up
  (the defaults, the retry options installed by \<^verbatim>\<open>axiosRetry\<close>, the response
  interceptors in the order of installation) and the network the instance sends to:
  \<open>adapter api verb url body config n\<close> is what the try made after \<open>n\<close> retries comes back
  with, the server's answer with whatever HTTP status, or what the transport threw.
\<close>

type_synonym AxiosRequestConfig = "(string \<times> jsval) list"

type_synonym network =
  "string \<Rightarrow> string \<Rightarrow> jsval option \<Rightarrow> AxiosRequestConfig option \<Rightarrow> nat \<Rightarrow> AxiosResponse promise"

record AxiosInstance =
  defaults :: CreateAxiosDefaults
  adapter :: network
  axios_retry :: "IAxiosRetryConfig option"
  interceptors_response ::
    "((AxiosResponse \<Rightarrow> nat \<Rightarrow> AxiosResponse promise \<times> nat) \<times>
      (thrown \<Rightarrow> AxiosResponse promise)) list"

text \<open>
  \<^verbatim>\<open>createApi\<close>. The library's \<^verbatim>\<open>axios.create\<close> and the library's retry predicate
  are parameters; the three statements after \<^verbatim>\<open>axios.create\<close> change the instance in
  place, which is a field update each.
\<close>

definition createApi ::
  "(CreateAxiosDefaults \<Rightarrow> AxiosInstance) \<Rightarrow> (AxiosError \<Rightarrow> bool) \<Rightarrow> CreateApiOptions \<Rightarrow>
   AxiosInstance" where
  "createApi axios_create isNetworkOrIdempotentRequestError options =
     (let api = axios_create (axiosConfig options);
          api = api\<lparr>axios_retry := Some (retryConfig isNetworkOrIdempotentRequestError)\<rparr>;
          api = api\<lparr>interceptors_response :=
                      interceptors_response api @ [(onFulfilled options, onRejected)]\<rparr>
      in api)"

section \<open>How the instance answers a request\<close>

text \<open>
  Modelled from the spec: what the two libraries do between a request function of the
  instance and the network, none of which is part of the repository's sources. The spec
  gives it as: a non-2xx response is a thrown transport error that carries the response;
  the retry makes up to \<open>retries\<close> further tries after the initial one, strictly
  sequential, a try being made again only when it failed with an error the retry condition
  accepts, after a delay of \<open>retryDelay n\<close> milliseconds before retry number \<open>n\<close>
  (counted from 1); the response interceptor sees what comes back. The rest follows the
  libraries' published behaviour, as stated with each definition.
\<close>

text \<open>
  The default \<^verbatim>\<open>validateStatus\<close> of axios (\<^verbatim>\<open>axiosConfig\<close> sets none): an answer
  with a status from 200 to 299 fulfils the request, any other answer rejects it with an
  \<^verbatim>\<open>AxiosError\<close> that carries the answer as its \<^verbatim>\<open>response\<close>.
\<close>

definition validateStatus :: "int \<Rightarrow> bool" where
  "validateStatus s = (200 \<le> s \<and> s < 300)"

fun decimal :: "nat \<Rightarrow> string" where
  "decimal n =
     (if n < 10 then [char_of (48 + n)] else decimal (n div 10) @ [char_of (48 + n mod 10)])"

declare decimal.simps [simp del]

definition rejection :: "string \<Rightarrow> AxiosResponse \<Rightarrow> AxiosError" where
  "rejection verb res =
     \<lparr>message = ''Request failed with status code '' @ decimal (nat (status res)),
      code = (if 400 \<le> status res \<and> status res < 500 then Some ''ERR_BAD_REQUEST''
              else if 500 \<le> status res \<and> status res < 600 then Some ''ERR_BAD_RESPONSE''
              else None),
      config_method = verb,
      response = Some res\<rparr>"

definition settle :: "string \<Rightarrow> AxiosResponse promise \<Rightarrow> AxiosResponse promise" where
  "settle verb reply =
     (case reply of
        Inl e \<Rightarrow> Inl e
      | Inr res \<Rightarrow>
          if validateStatus (status res) then Inr res
          else Inl (ThrownAxiosError (rejection verb res)))"

text \<open>
  The response interceptors are chained on the settled promise with \<^verbatim>\<open>then\<close>, in the
  order of installation: the first handler of a pair runs on a fulfilment, the second on a
  rejection, and what the handler gives is what the next pair sees. The number threaded
  through is the count of calls of the \<open>onUnauthorized\<close> hook.
\<close>

fun run_handlers ::
  "((AxiosResponse \<Rightarrow> nat \<Rightarrow> AxiosResponse promise \<times> nat) \<times>
    (thrown \<Rightarrow> AxiosResponse promise)) list \<Rightarrow>
   AxiosResponse promise \<Rightarrow> nat \<Rightarrow> AxiosResponse promise \<times> nat" where
  "run_handlers [] outcome calls = (outcome, calls)"
| "run_handlers ((fulfilled, rejected) # rest) (Inr res) calls =
     (case fulfilled res calls of (outcome, calls') \<Rightarrow> run_handlers rest outcome calls')"
| "run_handlers ((fulfilled, rejected) # rest) (Inl e) calls =
     run_handlers rest (rejected e) calls"

text \<open>
  The retry of \<^verbatim>\<open>axios-retry\<close> is itself a response interceptor, installed by
  \<^verbatim>\<open>axiosRetry\<close> before the handlers that \<^verbatim>\<open>createApi\<close> adds afterwards. It passes
  a fulfilment on. On a rejection with an \<^verbatim>\<open>AxiosError\<close> that the retry condition
  accepts, while retries are left, it waits \<open>retryDelay\<close> of the new retry count and issues
  the request again through the instance, so that the new try goes through the whole chain;
  what that gives then goes on to the handlers installed after the retry. Any other
  rejection is passed on.

  \<open>attempt n\<close> is the settled outcome of the try made after \<open>n\<close> retries. The loop returns
  the delays it waited, in order, the outcome the caller sees and the count of hook calls.
  Its first argument is the number of retries still allowed.
\<close>

fun retryable :: "IAxiosRetryConfig \<Rightarrow> AxiosResponse promise \<Rightarrow> bool" where
  "retryable cfg (Inl (ThrownAxiosError error)) = retryCondition cfg error"
| "retryable cfg outcome = False"

definition finish ::
  "((AxiosResponse \<Rightarrow> nat \<Rightarrow> AxiosResponse promise \<times> nat) \<times>
    (thrown \<Rightarrow> AxiosResponse promise)) list \<Rightarrow>
   nat list \<Rightarrow> AxiosResponse promise \<Rightarrow> nat \<Rightarrow> nat list \<times> AxiosResponse promise \<times> nat" where
  "finish handlers delays outcome calls =
     (case run_handlers handlers outcome calls of (outcome', calls') \<Rightarrow> (delays, outcome', calls'))"

fun request_loop ::
  "nat \<Rightarrow> IAxiosRetryConfig \<Rightarrow>
   ((AxiosResponse \<Rightarrow> nat \<Rightarrow> AxiosResponse promise \<times> nat) \<times>
    (thrown \<Rightarrow> AxiosResponse promise)) list \<Rightarrow>
   (nat \<Rightarrow> AxiosResponse promise) \<Rightarrow> nat \<Rightarrow> nat \<Rightarrow>
   nat list \<times> AxiosResponse promise \<times> nat" where
  "request_loop 0 cfg handlers attempt retryCount calls =
     finish handlers [] (attempt retryCount) calls"
| "request_loop (Suc left) cfg handlers attempt retryCount calls =
     (if retryable cfg (attempt retryCount) then
        (case request_loop left cfg handlers attempt (Suc retryCount) calls of
           (delays, outcome, calls') \<Rightarrow>
             finish handlers (retryDelay cfg (Suc retryCount) # delays) outcome calls')
      else finish handlers [] (attempt retryCount) calls)"

text \<open>
  A request of the instance: the tries are the network's replies, settled; an instance
  with no retry installed makes one try.
\<close>

definition axios_request ::
  "AxiosInstance \<Rightarrow> string \<Rightarrow> string \<Rightarrow> jsval option \<Rightarrow> AxiosRequestConfig option \<Rightarrow> nat \<Rightarrow>
   nat list \<times> AxiosResponse promise \<times> nat" where
  "axios_request api verb url body config calls =
     (case axios_retry api of
        None \<Rightarrow>
          finish (interceptors_response api) [] (settle verb (adapter api verb url body config 0))
            calls
      | Some cfg \<Rightarrow>
          request_loop (retries cfg) cfg (interceptors_response api)
            (\<lambda>n. settle verb (adapter api verb url body config n)) 0 calls)"

definition tries :: "nat list \<times> AxiosResponse promise \<times> nat \<Rightarrow> nat" where
  "tries run = Suc (length (fst run))"

definition outcome_of :: "nat list \<times> AxiosResponse promise \<times> nat \<Rightarrow> AxiosResponse promise" where
  "outcome_of run = fst (snd run)"


text \<open>
  The five request functions of the instance that the method facade calls, each the
  outcome of a request with its verb; \<^verbatim>\<open>get\<close> and \<^verbatim>\<open>delete\<close> send no body.
\<close>

definition api_get :: "AxiosInstance \<Rightarrow> string \<Rightarrow> AxiosRequestConfig option \<Rightarrow> AxiosResponse promise" where
  "api_get api url config = outcome_of (axios_request api ''get'' url None config 0)"

definition api_post ::
  "AxiosInstance \<Rightarrow> string \<Rightarrow> jsval option \<Rightarrow> AxiosRequestConfig option \<Rightarrow> AxiosResponse promise" where
  "api_post api url body config = outcome_of (axios_request api ''post'' url body config 0)"

definition api_put ::
  "AxiosInstance \<Rightarrow> string \<Rightarrow> jsval option \<Rightarrow> AxiosRequestConfig option \<Rightarrow> AxiosResponse promise" where
  "api_put api url body config = outcome_of (axios_request api ''put'' url body config 0)"

definition api_delete ::
  "AxiosInstance \<Rightarrow> string \<Rightarrow> AxiosRequestConfig option \<Rightarrow> AxiosResponse promise" where
  "api_delete api url config = outcome_of (axios_request api ''delete'' url None config 0)"

definition api_patch ::
  "AxiosInstance \<Rightarrow> string \<Rightarrow> jsval option \<Rightarrow> AxiosRequestConfig option \<Rightarrow> AxiosResponse promise" where
  "api_patch api url body config = outcome_of (axios_request api ''patch'' url body config 0)"

section \<open>The method facade\<close>

text \<open>
  The members of \<^verbatim>\<open>methods\<close> in \<^verbatim>\<open>createApiClient\<close>; the instance \<open>api\<close> they
  close over is their first argument. An \<^verbatim>\<open>async\<close> function that returns is a
  fulfilled promise, one that throws is a rejected one. In the enveloped methods the
  \<^verbatim>\<open>try\<close> block covers the awaited call, and the \<^verbatim>\<open>catch\<close> block returns.
\<close>

definition get :: "AxiosInstance \<Rightarrow> string \<Rightarrow> AxiosRequestConfig option \<Rightarrow> jsval promise" where
  "get api url config =
     (case api_get api url config of
        Inr res \<Rightarrow> Inr (data res)
      | Inl error \<Rightarrow> Inr (handleError error))"

definition getWithoutBaseResponse ::
  "AxiosInstance \<Rightarrow> string \<Rightarrow> AxiosRequestConfig option \<Rightarrow> jsval promise" where
  "getWithoutBaseResponse api url config =
     (case api_get api url config of
        Inr res \<Rightarrow> Inr (data res)
      | Inl error \<Rightarrow> Inl error)"

definition post ::
  "AxiosInstance \<Rightarrow> string \<Rightarrow> jsval option \<Rightarrow> AxiosRequestConfig option \<Rightarrow> jsval promise" where
  "post api url body config =
     (case api_post api url body config of
        Inr res \<Rightarrow> Inr (data res)
      | Inl error \<Rightarrow> Inr (handleError error))"

definition postWithoutBaseResponse ::
  "AxiosInstance \<Rightarrow> string \<Rightarrow> jsval option \<Rightarrow> AxiosRequestConfig option \<Rightarrow> jsval promise" where
  "postWithoutBaseResponse api url body config =
     (case api_post api url body config of
        Inr res \<Rightarrow> Inr (data res)
      | Inl error \<Rightarrow> Inl error)"

definition put ::
  "AxiosInstance \<Rightarrow> string \<Rightarrow> jsval option \<Rightarrow> AxiosRequestConfig option \<Rightarrow> jsval promise" where
  "put api url body config =
     (case api_put api url body config of
        Inr res \<Rightarrow> Inr (data res)
      | Inl error \<Rightarrow> Inr (handleError error))"

definition putWithoutBaseResponse ::
  "AxiosInstance \<Rightarrow> string \<Rightarrow> jsval option \<Rightarrow> AxiosRequestConfig option \<Rightarrow> jsval promise" where
  "putWithoutBaseResponse api url body config =
     (case api_put api url body config of
        Inr res \<Rightarrow> Inr (data res)
      | Inl error \<Rightarrow> Inl error)"

definition delete :: "AxiosInstance \<Rightarrow> string \<Rightarrow> AxiosRequestConfig option \<Rightarrow> jsval promise" where
  "delete api url config =
     (case api_delete api url config of
        Inr res \<Rightarrow> Inr (data res)
      | Inl error \<Rightarrow> Inr (handleError error))"

definition deleteWithoutBaseResponse ::
  "AxiosInstance \<Rightarrow> string \<Rightarrow> AxiosRequestConfig option \<Rightarrow> jsval promise" where
  "deleteWithoutBaseResponse api url config =
     (case api_delete api url config of
        Inr res \<Rightarrow> Inr (data res)
      | Inl error \<Rightarrow> Inl error)"

definition patch ::
  "AxiosInstance \<Rightarrow> string \<Rightarrow> jsval option \<Rightarrow> AxiosRequestConfig option \<Rightarrow> jsval promise" where
  "patch api url body config =
     (case api_patch api url body config of
        Inr res \<Rightarrow> Inr (data res)
      | Inl error \<Rightarrow> Inr (handleError error))"

definition patchWithoutBaseResponse ::
  "AxiosInstance \<Rightarrow> string \<Rightarrow> jsval option \<Rightarrow> AxiosRequestConfig option \<Rightarrow> jsval promise" where
  "patchWithoutBaseResponse api url body config =
     (case api_patch api url body config of
        Inr res \<Rightarrow> Inr (data res)
      | Inl error \<Rightarrow> Inl error)"

text \<open>
  The object \<^verbatim>\<open>createApiClient\<close> returns: its own properties in the order of the
  object literal (\<^verbatim>\<open>...rest\<close> keeps the order of \<^verbatim>\<open>methods\<close>), a property being a
  method of two or of three parameters, or the nested object \<^verbatim>\<open>withoutBaseResponse\<close>.
\<close>

datatype member =
    Method2 "string \<Rightarrow> AxiosRequestConfig option \<Rightarrow> jsval promise"
  | Method3 "string \<Rightarrow> jsval option \<Rightarrow> AxiosRequestConfig option \<Rightarrow> jsval promise"
  | Namespace "(string \<times> member) list"

definition createApiClient :: "AxiosInstance \<Rightarrow> (string \<times> member) list" where
  "createApiClient api =
     [(''get'', Method2 (get api)),
      (''post'', Method3 (post api)),
      (''put'', Method3 (put api)),
      (''delete'', Method2 (delete api)),
      (''patch'', Method3 (patch api)),
      (''withoutBaseResponse'', Namespace
         [(''get'', Method2 (getWithoutBaseResponse api)),
          (''post'', Method3 (postWithoutBaseResponse api)),
          (''put'', Method3 (putWithoutBaseResponse api)),
          (''delete'', Method2 (deleteWithoutBaseResponse api)),
          (''patch'', Method3 (patchWithoutBaseResponse api))])]"

section \<open>The singleton\<close>

text \<open>
  The module's state: the variable \<^verbatim>\<open>apiClientInstance\<close> (\<^verbatim>\<open>null\<close> is \<open>None\<close>)
  and the lines written with \<^verbatim>\<open>console.warn\<close>, oldest first.
\<close>

record module_state =
  apiClientInstance :: "(string \<times> member) list option"
  console_warn :: "string list"

definition initial_state :: module_state where
  "initial_state = \<lparr>apiClientInstance = None, console_warn = []\<rparr>"

text \<open>
  \<^verbatim>\<open>initApiClient\<close>. An object is truthy, so \<^verbatim>\<open>if (apiClientInstance)\<close> tests
  for \<^verbatim>\<open>null\<close>. The library functions \<^verbatim>\<open>createApi\<close> uses are parameters as before.
\<close>

definition initApiClient ::
  "(CreateAxiosDefaults \<Rightarrow> AxiosInstance) \<Rightarrow> (AxiosError \<Rightarrow> bool) \<Rightarrow> CreateApiOptions \<Rightarrow>
   module_state \<Rightarrow> module_state" where
  "initApiClient axios_create isNetworkOrIdempotentRequestError options st =
     (if apiClientInstance st \<noteq> None then
        st\<lparr>console_warn := console_warn st @ [''API client has already been initialized.'']\<rparr>
      else
        (let api = createApi axios_create isNetworkOrIdempotentRequestError options
         in st\<lparr>apiClientInstance := Some (createApiClient api)\<rparr>))"

text \<open>
  The \<^verbatim>\<open>get\<close> trap of the proxy \<^verbatim>\<open>request\<close>. \<^verbatim>\<open>Reflect.get\<close> on the client
  returns the property of that name, \<^verbatim>\<open>undefined\<close> (\<open>None\<close>) when the client has
  none; what a plain object inherits from \<^verbatim>\<open>Object.prototype\<close> is left out.
\<close>

definition Reflect_get :: "(string \<times> member) list \<Rightarrow> string \<Rightarrow> member option" where
  "Reflect_get target prop = map_of target prop"

definition request :: "module_state \<Rightarrow> string \<Rightarrow> member option promise" where
  "request st prop =
     (case apiClientInstance st of
        None \<Rightarrow>
          Inl (ThrownError
            ''API client has not been initialized. Please call initApiClient() first.'')
      | Some client \<Rightarrow> Inr (Reflect_get client prop))"

section \<open>The five verbs at once\<close>

text \<open>
  The source writes each method out per verb. To state a property once for all five, the
  three families (the instance's request functions, the enveloped methods, the methods
  without the envelope) are indexed by the verb; \<open>get\<close> and \<open>delete\<close> take no request
  body, so the argument is dropped for them.
\<close>

datatype verb = GET | POST | PUT | DELETE | PATCH

fun api_call ::
  "AxiosInstance \<Rightarrow> verb \<Rightarrow> string \<Rightarrow> jsval option \<Rightarrow> AxiosRequestConfig option \<Rightarrow>
   AxiosResponse promise" where
  "api_call api GET url body config = api_get api url config"
| "api_call api POST url body config = api_post api url body config"
| "api_call api PUT url body config = api_put api url body config"
| "api_call api DELETE url body config = api_delete api url config"
| "api_call api PATCH url body config = api_patch api url body config"

fun enveloped_call ::
  "AxiosInstance \<Rightarrow> verb \<Rightarrow> string \<Rightarrow> jsval option \<Rightarrow> AxiosRequestConfig option \<Rightarrow>
   jsval promise" where
  "enveloped_call api GET url body config = get api url config"
| "enveloped_call api POST url body config = post api url body config"
| "enveloped_call api PUT url body config = put api url body config"
| "enveloped_call api DELETE url body config = delete api url config"
| "enveloped_call api PATCH url body config = patch api url body config"

fun raw_call ::
  "AxiosInstance \<Rightarrow> verb \<Rightarrow> string \<Rightarrow> jsval option \<Rightarrow> AxiosRequestConfig option \<Rightarrow>
   jsval promise" where
  "raw_call api GET url body config = getWithoutBaseResponse api url config"
| "raw_call api POST url body config = postWithoutBaseResponse api url body config"
| "raw_call api PUT url body config = putWithoutBaseResponse api url body config"
| "raw_call api DELETE url body config = deleteWithoutBaseResponse api url config"
| "raw_call api PATCH url body config = patchWithoutBaseResponse api url body config"

text \<open>
  The property name of a verb, and the member the client holds for the verb in each family.
\<close>

fun verb_name :: "verb \<Rightarrow> string" where
  "verb_name GET = ''get''"
| "verb_name POST = ''post''"
| "verb_name PUT = ''put''"
| "verb_name DELETE = ''delete''"
| "verb_name PATCH = ''patch''"

fun enveloped_member :: "AxiosInstance \<Rightarrow> verb \<Rightarrow> member" where
  "enveloped_member api GET = Method2 (get api)"
| "enveloped_member api POST = Method3 (post api)"
| "enveloped_member api PUT = Method3 (put api)"
| "enveloped_member api DELETE = Method2 (delete api)"
| "enveloped_member api PATCH = Method3 (patch api)"

fun raw_member :: "AxiosInstance \<Rightarrow> verb \<Rightarrow> member" where
  "raw_member api GET = Method2 (getWithoutBaseResponse api)"
| "raw_member api POST = Method3 (postWithoutBaseResponse api)"
| "raw_member api PUT = Method3 (putWithoutBaseResponse api)"
| "raw_member api DELETE = Method2 (deleteWithoutBaseResponse api)"
| "raw_member api PATCH = Method3 (patchWithoutBaseResponse api)"

text \<open>
  The body the server delivered with an outcome of the underlying call, when there is one
  the wrapper hands on: the body of a successful response, or the truthy body attached to a
  transport error.
\<close>

fun delivered_body :: "AxiosResponse promise \<Rightarrow> jsval option" where
  "delivered_body (Inr res) = Some (data res)"
| "delivered_body (Inl (ThrownAxiosError a)) =
     (if truthy (response_data (response a)) then Some (response_data (response a)) else None)"
| "delivered_body (Inl e) = None"

section \<open>The libraries' own functions\<close>

text \<open>
  Modelled from the spec: \<^verbatim>\<open>axios.create\<close> and
  \<^verbatim>\<open>axiosRetry.isNetworkOrIdempotentRequestError\<close>, which \<^verbatim>\<open>createApi\<close> takes as
  parameters above and which are not part of the repository's sources.

  \<^verbatim>\<open>axios.create\<close> gives a fresh instance with the defaults it is handed, no retry and
  no interceptor; the network the instance sends to is made explicit.

  The retry predicate is, in the spec's words, a network-class error or an
  idempotent-method failure. Following the library's published definition, a network-class
  error is one with no response and an error code other than that of a timeout
  (\<^verbatim>\<open>ECONNABORTED\<close>) or of a cancelled request; an idempotent-method failure is a failure
  of a \<^verbatim>\<open>get\<close>, \<^verbatim>\<open>put\<close> or \<^verbatim>\<open>delete\<close>, or of a \<^verbatim>\<open>head\<close> or
  \<^verbatim>\<open>options\<close>, which the wrapper never sends, that is no timeout and has either no
  response or a 5xx status.
\<close>

definition axios_create_on :: "network \<Rightarrow> CreateAxiosDefaults \<Rightarrow> AxiosInstance" where
  "axios_create_on net cfg =
     \<lparr>defaults = cfg, adapter = net, axios_retry = None, interceptors_response = []\<rparr>"

definition isNetworkError :: "AxiosError \<Rightarrow> bool" where
  "isNetworkError error =
     (response error = None \<and> code error \<noteq> None \<and> code error \<noteq> Some [] \<and>
      code error \<noteq> Some ''ERR_CANCELED'' \<and> code error \<noteq> Some ''ECONNABORTED'')"

definition isRetryableError :: "AxiosError \<Rightarrow> bool" where
  "isRetryableError error =
     (code error \<noteq> Some ''ECONNABORTED'' \<and>
      (case response error of
         None \<Rightarrow> True
       | Some res \<Rightarrow> 500 \<le> status res \<and> status res \<le> 599))"

definition isIdempotentRequestError :: "AxiosError \<Rightarrow> bool" where
  "isIdempotentRequestError error =
     (config_method error \<in> set [''get'', ''head'', ''options'', ''put'', ''delete''] \<and>
      isRetryableError error)"

definition isNetworkOrIdempotent :: "AxiosError \<Rightarrow> bool" where
  "isNetworkOrIdempotent error = (isNetworkError error \<or> isIdempotentRequestError error)"

section \<open>Concrete inputs\<close>

text \<open>
  Values the closed theorems below are evaluated at: networks that give every try the
  same reply, or that refuse the first try and answer the next; the instance
  \<^verbatim>\<open>axios.create\<close> makes on such a network; some responses and errors as a server or
  the transport produces them; and some options.
\<close>

definition always :: "AxiosResponse promise \<Rightarrow> network" where
  "always reply = (\<lambda>verb url body config n. reply)"

definition stub_create :: "AxiosResponse promise \<Rightarrow> CreateAxiosDefaults \<Rightarrow> AxiosInstance" where
  "stub_create outcome cfg = axios_create_on (always outcome) cfg"

definition pong :: AxiosResponse where
  "pong = \<lparr>data = JStr ''pong'', status = 200\<rparr>"

definition no_code_body :: jsval where
  "no_code_body = JObj [(''data'', JArr [JNum 1, JNum 2]), (''msg'', JStr ''ok'')]"

definition user_body :: jsval where
  "user_body =
     JObj [(''data'', JObj [(''id'', JNum 1), (''name'', JStr ''John Doe'')]),
           (''msg'', JStr ''ok''), (''code'', JNum 200)]"


definition validation_body :: jsval where
  "validation_body =
     JObj [(''data'', JObj [(''field'', JStr ''email'')]), (''msg'', JStr ''validation failed''),
           (''code'', JNum 422)]"

definition validation_error :: AxiosError where
  "validation_error =
     \<lparr>message = ''Request failed with status code 422'', code = Some ''ERR_BAD_REQUEST'',
      config_method = ''post'', response = Some \<lparr>data = validation_body, status = 422\<rparr>\<rparr>"

definition bad_gateway :: AxiosError where
  "bad_gateway =
     \<lparr>message = ''Request failed with status code 502'', code = Some ''ERR_BAD_RESPONSE'',
      config_method = ''get'', response = Some \<lparr>data = JStr ''Bad Gateway'', status = 502\<rparr>\<rparr>"

definition no_content_error :: AxiosError where
  "no_content_error =
     \<lparr>message = ''Request failed with status code 404'', code = Some ''ERR_BAD_REQUEST'',
      config_method = ''get'', response = Some \<lparr>data = JStr [], status = 404\<rparr>\<rparr>"

definition connection_refused :: AxiosError where
  "connection_refused =
     \<lparr>message = ''connect ECONNREFUSED 127.0.0.1:3000'', code = Some ''ECONNREFUSED'',
      config_method = ''get'', response = None\<rparr>"

definition silent_error :: AxiosError where
  "silent_error = \<lparr>message = [], code = None, config_method = ''get'', response = None\<rparr>"

definition timeout_error :: AxiosError where
  "timeout_error =
     \<lparr>message = ''timeout of 10000ms exceeded'', code = Some ''ECONNABORTED'',
      config_method = ''get'', response = None\<rparr>"


definition null_token_options :: CreateApiOptions where
  "null_token_options =
     \<lparr>CreateApiOptions.baseURL = ''https://api.example.com'', getToken = Some (\<lambda>u. None),
      onUnauthorized = None\<rparr>"

definition first_options :: CreateApiOptions where
  "first_options =
     \<lparr>CreateApiOptions.baseURL = ''https://api.example.com'', getToken = Some (\<lambda>u. Some ''t0k3n''),
      onUnauthorized = Some Returns\<rparr>"

definition second_options :: CreateApiOptions where
  "second_options =
     \<lparr>CreateApiOptions.baseURL = ''http://localhost:3000/api'', getToken = None, onUnauthorized = None\<rparr>"

section \<open>The error normalizer: what it returns\<close>

lemma handleError_body:
  "truthy (response_data (response a)) \<Longrightarrow>
     handleError (ThrownAxiosError a) = response_data (response a)"
  by simp

lemma handleError_synthesized:
  "\<not> truthy (response_data (response a)) \<Longrightarrow>
     handleError (ThrownAxiosError a) =
       JObj [(''msg'', JStr (if message a = [] then msg_request_error else message a)),
             (''code'', JNum (case response a of None \<Rightarrow> 500
                              | Some r \<Rightarrow> if status r = 0 then 500 else status r)),
             (''data'', JNull)]"
  by (cases "response a") (simp_all add: response_status_def)

lemma error_envelope_BaseResponse: "error_envelope v \<Longrightarrow> BaseResponse v"
  by (cases v) simp_all

text \<open>
  Claim C2, as amended. \<^verbatim>\<open>handleError\<close> returns a value for every input and has no
  branch that throws. When the input is a transport error whose response carries a truthy
  body, the value is that body, as it is. For every other input (\<^verbatim>\<open>null\<close>, a string,
  a generic exception, a transport error with no response or with a falsy body) the value
  is an envelope whose \<^verbatim>\<open>data\<close> is \<^verbatim>\<open>null\<close>, whose \<^verbatim>\<open>msg\<close> is a string and
  whose \<^verbatim>\<open>code\<close> is a number.
\<close>

theorem handleError_total:
  "(\<forall>a r. e = ThrownAxiosError a \<and> response a = Some r \<and> truthy (data r) \<longrightarrow>
      handleError e = data r) \<and>
   ((\<nexists>a r. e = ThrownAxiosError a \<and> response a = Some r \<and> truthy (data r)) \<longrightarrow>
      error_envelope (handleError e))"
proof (cases e)
  case (ThrownAxiosError a)
  show ?thesis
  proof (cases "response a")
    case None
    with ThrownAxiosError show ?thesis
      by (simp add: response_data_def response_status_def)
  next
    case (Some r)
    with ThrownAxiosError show ?thesis
      by (simp add: response_data_def response_status_def)
  qed
next
  case (ThrownError m)
  then show ?thesis by simp
next
  case (ThrownValue v)
  then show ?thesis by simp
qed

theorem handleError_total_witness:
  "error_envelope (handleError (ThrownValue JNull)) \<and>
   error_envelope (handleError (ThrownValue (JStr ''boom''))) \<and>
   error_envelope (handleError (ThrownError ''boom'')) \<and>
   error_envelope (handleError (ThrownAxiosError connection_refused)) \<and>
   error_envelope (handleError (ThrownAxiosError no_content_error)) \<and>
   handleError (ThrownAxiosError bad_gateway) = JStr ''Bad Gateway''"
  using handleError_total [of "ThrownValue JNull"]
    handleError_total [of "ThrownValue (JStr ''boom'')"]
    handleError_total [of "ThrownError ''boom''"]
    handleError_total [of "ThrownAxiosError connection_refused"]
    handleError_total [of "ThrownAxiosError no_content_error"]
    handleError_total [of "ThrownAxiosError bad_gateway"]
  by (simp add: connection_refused_def no_content_error_def bad_gateway_def)

text \<open>
  Claim C2 as stated fails: a 422 answer whose body is the server's own envelope, with
  \<^verbatim>\<open>data\<close> an object, is returned as it is, so the returned \<^verbatim>\<open>data\<close> is not
  \<^verbatim>\<open>null\<close>.
\<close>

theorem handleError_data_counterexample:
  "handleError (ThrownAxiosError validation_error) = validation_body \<and>
   BaseResponse validation_body \<and>
   \<not> error_envelope (handleError (ThrownAxiosError validation_error))"
  by (simp add: validation_error_def validation_body_def response_data_def)

text \<open>
  Claim C3, as amended. For a transport error, \<^verbatim>\<open>handleError\<close> returns the attached
  response body as it is exactly when that body is truthy, whatever its shape. A transport
  error with no response or with a falsy body gives the synthesized envelope: \<^verbatim>\<open>data\<close>
  is \<^verbatim>\<open>null\<close>, \<^verbatim>\<open>msg\<close> is the transport's message or, when that is empty, the
  fallback text, and \<^verbatim>\<open>code\<close> is the HTTP status or, when there is none or it is 0, 500.
\<close>

theorem handleError_transport:
  "(handleError (ThrownAxiosError a) = response_data (response a) \<longleftrightarrow>
      truthy (response_data (response a))) \<and>
   (\<not> truthy (response_data (response a)) \<longrightarrow>
      handleError (ThrownAxiosError a) =
        JObj [(''msg'', JStr (if message a = [] then msg_request_error else message a)),
              (''code'', JNum (case response a of None \<Rightarrow> 500
                               | Some r \<Rightarrow> if status r = 0 then 500 else status r)),
              (''data'', JNull)])"
proof (cases "truthy (response_data (response a))")
  case True
  then show ?thesis by simp
next
  case False
  have "handleError (ThrownAxiosError a) \<noteq> response_data (response a)"
  proof
    assume "handleError (ThrownAxiosError a) = response_data (response a)"
    with False have "\<not> truthy (handleError (ThrownAxiosError a))" by simp
    with False show False by simp
  qed
  with False handleError_synthesized [OF False] show ?thesis by simp
qed

theorem handleError_transport_witness:
  "handleError (ThrownAxiosError validation_error) = validation_body \<and>
   handleError (ThrownAxiosError connection_refused) =
     JObj [(''msg'', JStr ''connect ECONNREFUSED 127.0.0.1:3000''), (''code'', JNum 500),
           (''data'', JNull)] \<and>
   handleError (ThrownAxiosError no_content_error) =
     JObj [(''msg'', JStr ''Request failed with status code 404''), (''code'', JNum 404),
           (''data'', JNull)] \<and>
   handleError (ThrownAxiosError silent_error) =
     JObj [(''msg'', JStr msg_request_error), (''code'', JNum 500), (''data'', JNull)]"
  using handleError_transport [of validation_error]
    handleError_transport [of connection_refused]
    handleError_transport [of no_content_error]
    handleError_transport [of silent_error]
  by (simp add: validation_error_def validation_body_def connection_refused_def
      no_content_error_def silent_error_def response_data_def)

text \<open>
  Claim C3 as stated fails: the body of a 502 answer from a proxy is plain text, not an
  envelope; it is truthy, so it is returned as it is and no envelope is synthesized.
\<close>

theorem handleError_shape_counterexample:
  "\<not> BaseResponse (response_data (response bad_gateway)) \<and>
   handleError (ThrownAxiosError bad_gateway) = response_data (response bad_gateway) \<and>
   handleError (ThrownAxiosError bad_gateway) \<noteq>
     JObj [(''msg'', JStr ''Request failed with status code 502''), (''code'', JNum 502),
           (''data'', JNull)]"
  by (simp add: bad_gateway_def response_data_def)

section \<open>The method facade: what a call settles to\<close>

lemma settle_thrown: "settle verb (Inl e) = Inl e"
  by (simp add: settle_def)


lemma axios_create_on_request:
  "axios_request (axios_create_on net cfg) verb url body config calls =
     ([], settle verb (net verb url body config 0), calls)"
  by (simp add: axios_request_def axios_create_on_def finish_def)

lemma stub_create_api:
  "api_get (stub_create outcome cfg) url config = settle ''get'' outcome"
  "api_post (stub_create outcome cfg) url body config = settle ''post'' outcome"
  "api_put (stub_create outcome cfg) url body config = settle ''put'' outcome"
  "api_delete (stub_create outcome cfg) url config = settle ''delete'' outcome"
  "api_patch (stub_create outcome cfg) url body config = settle ''patch'' outcome"
  by (simp_all add: api_get_def api_post_def api_put_def api_delete_def api_patch_def
      stub_create_def axios_create_on_request outcome_of_def always_def)

lemmas facade_defs =
  get_def post_def put_def delete_def patch_def getWithoutBaseResponse_def
  postWithoutBaseResponse_def putWithoutBaseResponse_def deleteWithoutBaseResponse_def
  patchWithoutBaseResponse_def

lemma enveloped_call_success:
  "api_call api verb url body config = Inr res \<Longrightarrow>
     enveloped_call api verb url body config = Inr (data res)"
  by (cases verb) (simp_all add: get_def post_def put_def delete_def patch_def)

lemma enveloped_call_failure:
  "api_call api verb url body config = Inl error \<Longrightarrow>
     enveloped_call api verb url body config = Inr (handleError error)"
  by (cases verb) (simp_all add: get_def post_def put_def delete_def patch_def)

lemma raw_call_success:
  "api_call api verb url body config = Inr res \<Longrightarrow>
     raw_call api verb url body config = Inr (data res)"
  by (cases verb)
    (simp_all add: getWithoutBaseResponse_def postWithoutBaseResponse_def
      putWithoutBaseResponse_def deleteWithoutBaseResponse_def patchWithoutBaseResponse_def)

lemma raw_call_failure:
  "api_call api verb url body config = Inl error \<Longrightarrow>
     raw_call api verb url body config = Inl error"
  by (cases verb)
    (simp_all add: getWithoutBaseResponse_def postWithoutBaseResponse_def
      putWithoutBaseResponse_def deleteWithoutBaseResponse_def patchWithoutBaseResponse_def)

lemma handleError_shape:
  "(\<forall>b. delivered_body (Inl error) = Some b \<longrightarrow> BaseResponse b) \<Longrightarrow>
     BaseResponse (handleError error)"
proof (cases error)
  case (ThrownAxiosError a)
  assume h: "\<forall>b. delivered_body (Inl error) = Some b \<longrightarrow> BaseResponse b"
  show ?thesis
  proof (cases "truthy (response_data (response a))")
    case True
    with h ThrownAxiosError show ?thesis by simp
  next
    case False
    have "error_envelope (handleError (ThrownAxiosError a))"
      unfolding handleError_synthesized [OF False] by (simp split: option.splits)
    with ThrownAxiosError show ?thesis by (simp add: error_envelope_BaseResponse)
  qed
next
  case (ThrownError m)
  then show ?thesis by simp
next
  case (ThrownValue v)
  then show ?thesis by simp
qed

lemma withoutBaseResponse_member:
  "Reflect_get (createApiClient api) ''withoutBaseResponse'' =
     Some (Namespace
       [(''get'', Method2 (getWithoutBaseResponse api)),
        (''post'', Method3 (postWithoutBaseResponse api)),
        (''put'', Method3 (putWithoutBaseResponse api)),
        (''delete'', Method2 (deleteWithoutBaseResponse api)),
        (''patch'', Method3 (patchWithoutBaseResponse api))])"
  by (simp add: Reflect_get_def createApiClient_def)

text \<open>
  Claim C1, as amended. For every verb and every outcome of the underlying call, the
  enveloped method is fulfilled and never rejected: with the response body when the call
  succeeded, with the result of \<^verbatim>\<open>handleError\<close> when it failed in any way. The value
  has the envelope's shape whenever the body the server delivered has it (the body of the
  successful response, or the truthy body attached to a transport error); a failure that
  delivers no such body always gives a value of that shape.
\<close>

theorem enveloped_never_rejects:
  "\<exists>v. enveloped_call api verb url body config = Inr v \<and>
     (\<forall>res. api_call api verb url body config = Inr res \<longrightarrow> v = data res) \<and>
     (\<forall>error. api_call api verb url body config = Inl error \<longrightarrow> v = handleError error) \<and>
     ((\<forall>b. delivered_body (api_call api verb url body config) = Some b \<longrightarrow> BaseResponse b) \<longrightarrow>
        BaseResponse v)"
proof (cases "api_call api verb url body config")
  case (Inr res)
  then show ?thesis by (simp add: enveloped_call_success)
next
  case (Inl error)
  then show ?thesis using handleError_shape [of error] by (simp add: enveloped_call_failure)
qed

theorem enveloped_never_rejects_witness:
  "enveloped_call (stub_create (Inr \<lparr>data = user_body, status = 200\<rparr>) (axiosConfig first_options))
     GET ''/users/1'' None None = Inr user_body \<and>
   BaseResponse user_body \<and>
   enveloped_call (stub_create (Inl (ThrownAxiosError connection_refused)) (axiosConfig first_options))
     PUT ''/users/1'' (Some (JObj [(''name'', JStr ''Jane Doe'')])) None =
     Inr (JObj [(''msg'', JStr ''connect ECONNREFUSED 127.0.0.1:3000''), (''code'', JNum 500),
                (''data'', JNull)]) \<and>
   enveloped_call (stub_create (Inl (ThrownValue JNull)) (axiosConfig first_options))
     DELETE ''/users/1'' None None =
     Inr (JObj [(''msg'', JStr msg_unknown_error), (''code'', JNum 500), (''data'', JNull)])"
  using
    enveloped_never_rejects [of "stub_create (Inr \<lparr>data = user_body, status = 200\<rparr>)
      (axiosConfig first_options)" GET "''/users/1''" None None]
    enveloped_never_rejects [of "stub_create (Inl (ThrownAxiosError connection_refused))
      (axiosConfig first_options)" PUT "''/users/1''" "Some (JObj [(''name'', JStr ''Jane Doe'')])" None]
    enveloped_never_rejects [of "stub_create (Inl (ThrownValue JNull))
      (axiosConfig first_options)" DELETE "''/users/1''" None None]
  by (auto simp: stub_create_api facade_defs settle_def validateStatus_def user_body_def
      connection_refused_def response_data_def response_status_def)

text \<open>
  Claim C1 as stated fails in its last part: a server that answers 200 with the plain text
  \<^verbatim>\<open>pong\<close> makes \<^verbatim>\<open>get\<close> resolve to that string, which is no envelope.
\<close>

theorem enveloped_shape_counterexample:
  "enveloped_call (stub_create (Inr pong) (axiosConfig first_options)) GET ''/ping'' None None =
     Inr (JStr ''pong'') \<and>
   \<not> BaseResponse (JStr ''pong'')"
  by (simp add: stub_create_api facade_defs settle_def validateStatus_def pong_def)

text \<open>
  Claim C9. For every verb, the method without the envelope is exposed under the property
  \<^verbatim>\<open>withoutBaseResponse\<close> of the client; it is fulfilled with exactly
  \<^verbatim>\<open>response.data\<close> when the underlying call succeeds, and when that call fails it is
  rejected with the very error the call failed with: nothing is caught, nothing normalized.
\<close>

theorem raw_propagates:
  "(\<forall>res. api_call api verb url body config = Inr res \<longrightarrow>
      raw_call api verb url body config = Inr (data res)) \<and>
   (\<forall>error. api_call api verb url body config = Inl error \<longrightarrow>
      raw_call api verb url body config = Inl error) \<and>
   (\<exists>ns. Reflect_get (createApiClient api) ''withoutBaseResponse'' = Some (Namespace ns) \<and>
      Reflect_get ns (verb_name verb) = Some (raw_member api verb))"
proof -
  have "Reflect_get
     [(''get'', Method2 (getWithoutBaseResponse api)),
      (''post'', Method3 (postWithoutBaseResponse api)),
      (''put'', Method3 (putWithoutBaseResponse api)),
      (''delete'', Method2 (deleteWithoutBaseResponse api)),
      (''patch'', Method3 (patchWithoutBaseResponse api))] (verb_name verb) =
     Some (raw_member api verb)"
    by (cases verb) (simp_all add: Reflect_get_def)
  then show ?thesis
    by (simp add: raw_call_success raw_call_failure withoutBaseResponse_member)
qed

theorem raw_propagates_witness:
  "raw_call (stub_create (Inr pong) (axiosConfig second_options)) GET ''/ping'' None None =
     Inr (JStr ''pong'') \<and>
   raw_call (stub_create (Inl (ThrownAxiosError bad_gateway)) (axiosConfig second_options))
     PATCH ''/users/1'' (Some JNull) None = Inl (ThrownAxiosError bad_gateway) \<and>
   raw_call (stub_create (Inl (ThrownError ''boom'')) (axiosConfig second_options))
     POST ''/users'' None None = Inl (ThrownError ''boom'')"
  using
    raw_propagates [of "stub_create (Inr pong) (axiosConfig second_options)" GET "''/ping''"
      None None]
    raw_propagates [of "stub_create (Inl (ThrownAxiosError bad_gateway))
      (axiosConfig second_options)" PATCH "''/users/1''" "Some JNull" None]
    raw_propagates [of "stub_create (Inl (ThrownError ''boom'')) (axiosConfig second_options)"
      POST "''/users''" None None]
  by (auto simp: stub_create_api facade_defs settle_def validateStatus_def pong_def)

text \<open>
  Claim C10. On every successful underlying call the enveloped method returns the response
  body as it is, for a body of any shape: what comes back has the envelope's shape exactly
  when the server's body had it. A body with no \<^verbatim>\<open>code\<close> field and a plain string
  both reach the caller unchanged.
\<close>

theorem enveloped_success_verbatim:
  "api_call api verb url body config = Inr res \<Longrightarrow>
     enveloped_call api verb url body config = Inr (data res) \<and>
     (\<forall>v. enveloped_call api verb url body config = Inr v \<longrightarrow>
        (BaseResponse v \<longleftrightarrow> BaseResponse (data res)))"
  by (simp add: enveloped_call_success)

theorem enveloped_success_verbatim_witness:
  "enveloped_call (stub_create (Inr \<lparr>data = no_code_body, status = 201\<rparr>)
      (axiosConfig second_options)) POST ''/users'' (Some (JObj [(''name'', JStr ''John Doe'')]))
      None = Inr no_code_body \<and>
   \<not> BaseResponse no_code_body \<and>
   enveloped_call (stub_create (Inr \<lparr>data = JStr ''OK'', status = 200\<rparr>)
      (axiosConfig second_options)) PATCH ''/users/1'' None None = Inr (JStr ''OK'') \<and>
   \<not> BaseResponse (JStr ''OK'')"
proof -
  have a: "api_call (stub_create (Inr \<lparr>data = no_code_body, status = 201\<rparr>)
      (axiosConfig second_options)) POST ''/users'' (Some (JObj [(''name'', JStr ''John Doe'')]))
      None = Inr \<lparr>data = no_code_body, status = 201\<rparr>"
    by (simp add: stub_create_api settle_def validateStatus_def)
  have b: "api_call (stub_create (Inr \<lparr>data = JStr ''OK'', status = 200\<rparr>)
      (axiosConfig second_options)) PATCH ''/users/1'' None None =
      Inr \<lparr>data = JStr ''OK'', status = 200\<rparr>"
    by (simp add: stub_create_api settle_def validateStatus_def)
  show ?thesis
    using enveloped_success_verbatim [OF a] enveloped_success_verbatim [OF b]
    by (simp add: no_code_body_def)
qed

section \<open>The client factory: headers and interceptor\<close>

lemma createApi_headers_content_type:
  "map_of (createApi_headers options) ''Content-Type'' = Some ''application/json''"
  by (simp add: createApi_headers_def)

lemma createApi_headers_authorization:
  "map_of (createApi_headers options) ''Authorization'' =
     (case getToken options of None \<Rightarrow> None | Some f \<Rightarrow> Some (''Bearer '' @ to_string (f ())))"
  by (simp add: createApi_headers_def split: option.splits)

text \<open>
  Claim C4 at the input where the code departs from it: \<open>getToken\<close> is supplied and returns
  \<^verbatim>\<open>null\<close>. The template literal turns the \<^verbatim>\<open>null\<close> into text, so the client is
  built with the default header \<^verbatim>\<open>Authorization: Bearer null\<close>.
\<close>

theorem createApi_null_token_header:
  "createApi_headers null_token_options =
     [(''Content-Type'', ''application/json''), (''Authorization'', ''Bearer null'')] \<and>
   map_of (headers (axiosConfig null_token_options)) ''Authorization'' = Some ''Bearer null''"
  by (simp add: axiosConfig_def createApi_headers_def null_token_options_def to_string_def)

lemma read_code_401:
  "read_code body = Inr (JNum 401) \<longleftrightarrow>
     (\<exists>fs. body = JObj fs \<and> map_of fs ''code'' = Some (JNum 401))"
  by (cases body) (auto split: option.splits)

lemma createApi_interceptor:
  "interceptors_response (createApi ac p options) =
     interceptors_response (ac (axiosConfig options)) @
       [(onFulfilled options, onRejected)]"
  by (simp add: createApi_def Let_def)

section \<open>The singleton: initialization and access\<close>

lemma initApiClient_first:
  "apiClientInstance st = None \<Longrightarrow>
     initApiClient ac p options st =
       st\<lparr>apiClientInstance := Some (createApiClient (createApi ac p options))\<rparr>"
  by (simp add: initApiClient_def)

lemma initApiClient_again:
  "apiClientInstance st \<noteq> None \<Longrightarrow>
     initApiClient ac p options st =
       st\<lparr>console_warn := console_warn st @ [''API client has already been initialized.'']\<rparr>"
  by (simp add: initApiClient_def)

lemma initApiClient_initialized: "apiClientInstance (initApiClient ac p options st) \<noteq> None"
  by (simp add: initApiClient_def)

lemma initApiClient_later:
  "apiClientInstance st \<noteq> None \<Longrightarrow>
     apiClientInstance (fold (initApiClient ac p) later st) = apiClientInstance st \<and>
     console_warn (fold (initApiClient ac p) later st) =
       console_warn st @ replicate (length later) ''API client has already been initialized.''"
proof (induction later arbitrary: st)
  case Nil
  then show ?case by simp
next
  case (Cons options later)
  let ?st = "initApiClient ac p options st"
  from Cons.prems have st: "?st =
      st\<lparr>console_warn := console_warn st @ [''API client has already been initialized.'']\<rparr>"
    by (rule initApiClient_again)
  with Cons.prems have "apiClientInstance ?st \<noteq> None" by simp
  from Cons.IH [OF this] st show ?case
    by (simp add: replicate_append_same)
qed

lemma createApiClient_member:
  "Reflect_get (createApiClient api) (verb_name verb) = Some (enveloped_member api verb)"
  by (cases verb) (simp_all add: Reflect_get_def createApiClient_def)

text \<open>
  Claim C6. The lifecycle is one-way. A call of \<^verbatim>\<open>initApiClient\<close> in the uninitialized
  state builds the client from its options and installs it; a call in the initialized state
  writes one warning and changes nothing else; no call leaves the state uninitialized. So
  after a first call from the initial state, any number of later calls leave the client
  built from the first call's options in place, each adding one warning.
\<close>

theorem initApiClient_once:
  "(apiClientInstance st = None \<longrightarrow>
      initApiClient ac p options st =
        st\<lparr>apiClientInstance := Some (createApiClient (createApi ac p options))\<rparr>) \<and>
   (apiClientInstance st \<noteq> None \<longrightarrow>
      initApiClient ac p options st =
        st\<lparr>console_warn :=
             console_warn st @ [''API client has already been initialized.'']\<rparr>) \<and>
   apiClientInstance (initApiClient ac p options st) \<noteq> None \<and>
   apiClientInstance (fold (initApiClient ac p) later (initApiClient ac p options initial_state)) =
     Some (createApiClient (createApi ac p options)) \<and>
   console_warn (fold (initApiClient ac p) later (initApiClient ac p options initial_state)) =
     replicate (length later) ''API client has already been initialized.''"
proof -
  let ?st = "initApiClient ac p options initial_state"
  have first: "?st =
      initial_state\<lparr>apiClientInstance := Some (createApiClient (createApi ac p options))\<rparr>"
    by (simp add: initApiClient_first initial_state_def)
  have "apiClientInstance ?st \<noteq> None" by (rule initApiClient_initialized)
  from initApiClient_later [OF this, of ac p later] first
  have "apiClientInstance (fold (initApiClient ac p) later ?st) =
      Some (createApiClient (createApi ac p options))"
    and "console_warn (fold (initApiClient ac p) later ?st) =
      replicate (length later) ''API client has already been initialized.''"
    by (simp_all add: initial_state_def)
  then show ?thesis
    using initApiClient_first [of st ac p options] initApiClient_again [of st ac p options]
      initApiClient_initialized [of ac p options st]
    by blast
qed

theorem initApiClient_once_witness:
  "apiClientInstance
     (initApiClient (stub_create (Inr pong)) isNetworkOrIdempotent second_options
       (initApiClient (stub_create (Inr pong)) isNetworkOrIdempotent first_options initial_state)) =
     Some (createApiClient (createApi (stub_create (Inr pong)) isNetworkOrIdempotent first_options)) \<and>
   console_warn
     (initApiClient (stub_create (Inr pong)) isNetworkOrIdempotent second_options
       (initApiClient (stub_create (Inr pong)) isNetworkOrIdempotent first_options initial_state)) =
     [''API client has already been initialized.''] \<and>
   CreateAxiosDefaults.baseURL
     (defaults (createApi (stub_create (Inr pong)) isNetworkOrIdempotent first_options)) =
     ''https://api.example.com''"
proof -
  have "CreateAxiosDefaults.baseURL
     (defaults (createApi (stub_create (Inr pong)) isNetworkOrIdempotent first_options)) =
     ''https://api.example.com''"
    by (simp add: createApi_def stub_create_def axios_create_on_def axiosConfig_def
        first_options_def)
  then show ?thesis
    using initApiClient_once [of initial_state "stub_create (Inr pong)" isNetworkOrIdempotent first_options
        "[second_options]"]
    by simp
qed

text \<open>
  Claim C7. While the singleton is uninitialized, reading any property of \<^verbatim>\<open>request\<close>
  throws the error that names \<^verbatim>\<open>initApiClient()\<close>, and so does every one of any series
  of reads. Once a client is installed, reading a property returns what \<^verbatim>\<open>Reflect.get\<close>
  finds on the client; after \<^verbatim>\<open>initApiClient\<close> has been called a client is installed,
  so the read succeeds, and after a first call the property of each verb is that verb's
  enveloped method of the client built from the call's options.
\<close>

theorem request_guard:
  "(apiClientInstance st = None \<longrightarrow>
      request st prop =
        Inl (ThrownError
          ''API client has not been initialized. Please call initApiClient() first.'')) \<and>
   (apiClientInstance st = None \<longrightarrow>
      map (request st) props =
        replicate (length props)
          (Inl (ThrownError
            ''API client has not been initialized. Please call initApiClient() first.''))) \<and>
   (\<forall>client. apiClientInstance st = Some client \<longrightarrow>
      request st prop = Inr (Reflect_get client prop)) \<and>
   (\<exists>client. apiClientInstance (initApiClient ac p options st) = Some client \<and>
      request (initApiClient ac p options st) prop = Inr (Reflect_get client prop)) \<and>
   (apiClientInstance st = None \<longrightarrow>
      request (initApiClient ac p options st) (verb_name verb) =
        Inr (Some (enveloped_member (createApi ac p options) verb)))"
proof -
  have a: "apiClientInstance st = None \<Longrightarrow> request st q =
      Inl (ThrownError
        ''API client has not been initialized. Please call initApiClient() first.'')" for q
    by (simp add: request_def)
  have b: "apiClientInstance st = None \<Longrightarrow> map (request st) props =
      replicate (length props)
        (Inl (ThrownError
          ''API client has not been initialized. Please call initApiClient() first.''))"
    by (induction props) (simp_all add: a)
  have c: "apiClientInstance st = Some client \<Longrightarrow>
      request st prop = Inr (Reflect_get client prop)" for client
    by (simp add: request_def)
  obtain client where d: "apiClientInstance (initApiClient ac p options st) = Some client"
    using initApiClient_initialized [of ac p options st] by blast
  then have d': "request (initApiClient ac p options st) prop = Inr (Reflect_get client prop)"
    by (simp add: request_def)
  have e: "apiClientInstance st = None \<Longrightarrow>
      request (initApiClient ac p options st) (verb_name verb) =
        Inr (Some (enveloped_member (createApi ac p options) verb))"
    by (simp add: initApiClient_first request_def createApiClient_member)
  from a [of "prop"] b c d d' e show ?thesis by blast
qed

theorem request_guard_witness:
  "request initial_state ''get'' =
     Inl (ThrownError
       ''API client has not been initialized. Please call initApiClient() first.'') \<and>
   request (initApiClient (stub_create (Inr pong)) isNetworkOrIdempotent first_options initial_state)
     ''get'' =
     Inr (Some (Method2 (get (createApi (stub_create (Inr pong)) isNetworkOrIdempotent first_options)))) \<and>
   request (initApiClient (stub_create (Inr pong)) isNetworkOrIdempotent first_options initial_state)
     ''patch'' =
     Inr (Some (Method3 (patch (createApi (stub_create (Inr pong)) isNetworkOrIdempotent first_options))))"
  using request_guard [of initial_state "''get''" "[]" "stub_create (Inr pong)" isNetworkOrIdempotent
      first_options GET]
    request_guard [of initial_state "''patch''" "[]" "stub_create (Inr pong)" isNetworkOrIdempotent
      first_options PATCH]
  by (simp add: initial_state_def)

section \<open>The requests of the client \<^verbatim>\<open>createApi\<close> builds\<close>

lemma finish_fst: "fst (finish handlers delays outcome calls) = delays"
  by (simp add: finish_def split: prod.splits)

lemma request_loop_retry:
  "retryable cfg (attempt n) \<Longrightarrow>
     fst (request_loop (Suc left) cfg handlers attempt n calls) =
       retryDelay cfg (Suc n) # fst (request_loop left cfg handlers attempt (Suc n) calls)"
  by (simp add: finish_fst split: prod.splits)

lemma request_loop_stop:
  "\<not> retryable cfg (attempt n) \<Longrightarrow>
     request_loop (Suc left) cfg handlers attempt n calls = finish handlers [] (attempt n) calls"
  by simp

lemma request_loop_length:
  "length (fst (request_loop left cfg handlers attempt n calls)) \<le> left"
proof (induction left arbitrary: n)
  case 0
  then show ?case by (simp add: finish_fst)
next
  case (Suc left)
  show ?case
  proof (cases "retryable cfg (attempt n)")
    case False
    then show ?thesis by (simp add: finish_fst)
  next
    case True
    from Suc.IH [of "Suc n"] show ?thesis
      by (simp only: request_loop_retry [of cfg attempt n left handlers calls, OF True]) simp
  qed
qed


lemma upt_step: "[Suc n ..< Suc (n + Suc k)] = Suc n # [Suc (Suc n) ..< Suc (Suc n + k)]"
  by (subst upt_rec) simp

lemma request_loop_delays:
  "length (fst (request_loop left cfg handlers attempt n calls)) = k \<Longrightarrow>
     fst (request_loop left cfg handlers attempt n calls) =
       map (retryDelay cfg) [Suc n ..< Suc (n + k)]"
proof (induction left arbitrary: n k)
  case 0
  then show ?case by (simp add: finish_fst)
next
  case (Suc left)
  show ?case
  proof (cases "retryable cfg (attempt n)")
    case False
    with Suc.prems show ?thesis by (simp add: finish_fst)
  next
    case True
    note step = request_loop_retry [of cfg attempt n left handlers calls, OF True]
    let ?ds = "fst (request_loop left cfg handlers attempt (Suc n) calls)"
    from Suc.prems have k: "k = Suc (length ?ds)"
      by (simp only: step list.size)
    have ds: "?ds = map (retryDelay cfg) [Suc (Suc n) ..< Suc (Suc n + length ?ds)]"
      by (rule Suc.IH) (rule refl)
    have "retryDelay cfg (Suc n) # ?ds =
        retryDelay cfg (Suc n) # map (retryDelay cfg) [Suc (Suc n) ..< Suc (Suc n + length ?ds)]"
      by (rule arg_cong [OF ds])
    also have "\<dots> = map (retryDelay cfg) [Suc n ..< Suc (n + Suc (length ?ds))]"
      by (simp only: upt_step list.map)
    finally show ?thesis by (simp only: step k)
  qed
qed

lemma request_loop_retried:
  "i < length (fst (request_loop left cfg handlers attempt n calls)) \<Longrightarrow>
     retryable cfg (attempt (n + i))"
proof (induction left arbitrary: n i)
  case 0
  then show ?case by (simp add: finish_fst)
next
  case (Suc left)
  show ?case
  proof (cases "retryable cfg (attempt n)")
    case False
    with Suc.prems show ?thesis by (simp add: finish_fst)
  next
    case True
    show ?thesis
    proof (cases i)
      case 0
      with True show ?thesis by simp
    next
      case (Suc j)
      with Suc.prems
      have "j < length (fst (request_loop left cfg handlers attempt (Suc n) calls))"
        by (simp only: request_loop_retry [of cfg attempt n left handlers calls, OF True]) simp
      from Suc.IH [OF this] Suc show ?thesis by simp
    qed
  qed
qed

lemma request_loop_stops:
  "length (fst (request_loop left cfg handlers attempt n calls)) < left \<Longrightarrow>
     \<not> retryable cfg (attempt (n + length (fst (request_loop left cfg handlers attempt n calls))))"
proof (induction left arbitrary: n)
  case 0
  then show ?case by simp
next
  case (Suc left)
  show ?case
  proof (cases "retryable cfg (attempt n)")
    case False
    then show ?thesis by (simp add: finish_fst)
  next
    case True
    note step = request_loop_retry [of cfg attempt n left handlers calls, OF True]
    from Suc.prems
    have "length (fst (request_loop left cfg handlers attempt (Suc n) calls)) < left"
      by (simp only: step) simp
    from Suc.IH [OF this] show ?thesis
      by (simp only: step) simp
  qed
qed

lemma rejected_passed_on:
  "finish [(f, onRejected)] delays (Inl e) calls = (delays, Inl e, calls)"
  by (simp add: finish_def onRejected_def)

lemma request_loop_rejected:
  "attempt (n + length (fst (request_loop left cfg [(f, onRejected)] attempt n calls))) = Inl e \<Longrightarrow>
     snd (request_loop left cfg [(f, onRejected)] attempt n calls) = (Inl e, calls)"
proof (induction left arbitrary: n)
  case 0
  then show ?case by (simp add: finish_fst rejected_passed_on)
next
  case (Suc left)
  show ?case
  proof (cases "retryable cfg (attempt n)")
    case False
    with Suc.prems show ?thesis by (simp add: finish_fst rejected_passed_on)
  next
    case True
    note step = request_loop_retry [of cfg attempt n left "[(f, onRejected)]" calls, OF True]
    from Suc.prems
    have "attempt (Suc n +
        length (fst (request_loop left cfg [(f, onRejected)] attempt (Suc n) calls))) = Inl e"
      by (simp only: step) simp
    from Suc.IH [OF this]
    obtain ds where "request_loop left cfg [(f, onRejected)] attempt (Suc n) calls =
        (ds, Inl e, calls)"
      by (cases "request_loop left cfg [(f, onRejected)] attempt (Suc n) calls") simp
    with True show ?thesis
      by (simp add: rejected_passed_on)
  qed
qed

lemma linear_delays:
  "k \<le> 3 \<Longrightarrow> map (\<lambda>retryCount. retryCount * 1000) [Suc 0 ..< Suc (0 + k)] =
     take k [1000, 2000, 3000]"
proof -
  assume "k \<le> 3"
  then consider "k = 0" | "k = 1" | "k = 2" | "k = 3" by linarith
  then show ?thesis
  proof cases
    case 1
    then show ?thesis by simp
  next
    case 2
    then show ?thesis by simp
  next
    case 3
    then show ?thesis by (simp add: upt_rec)
  next
    case 4
    then show ?thesis by (simp add: upt_rec)
  qed
qed

lemma retryable_retryConfig:
  "retryable (retryConfig P) outcome \<longleftrightarrow> (\<exists>e. outcome = Inl (ThrownAxiosError e) \<and> P e)"
proof (cases outcome)
  case (Inr res)
  then show ?thesis by simp
next
  case (Inl t)
  then show ?thesis by (cases t) (simp_all add: retryConfig_def)
qed

lemma createApi_request:
  "axios_request (createApi (axios_create_on net) P options) verb url body config calls =
     request_loop 3 (retryConfig P) [(onFulfilled options, onRejected)]
       (\<lambda>n. settle verb (net verb url body config n)) 0 calls"
  by (simp add: axios_request_def createApi_def axios_create_on_def Let_def retryConfig_def)

lemma retry_verdicts:
  "isNetworkOrIdempotent connection_refused"
  "isNetworkOrIdempotent (rejection ''get'' \<lparr>data = JStr ''Bad Gateway'', status = 502\<rparr>)"
  "\<not> isNetworkOrIdempotent (rejection ''post'' \<lparr>data = JStr ''Bad Gateway'', status = 502\<rparr>)"
  "\<not> isNetworkOrIdempotent timeout_error"
  by (simp_all add: isNetworkOrIdempotent_def isNetworkError_def isIdempotentRequestError_def
      isRetryableError_def connection_refused_def timeout_error_def rejection_def)



text \<open>
  Claim C8. A request of the client that \<^verbatim>\<open>createApi\<close> builds on a fresh instance,
  where \<open>P\<close> is the library's predicate for a network-class or idempotent-method failure
  and \<open>attempt n\<close> is the settled outcome of the try made after \<open>n\<close> retries: the request
  is tried at most 4 times (the initial try and up to 3 retries); the delays waited between
  the tries are, in order, a prefix of 1000, 2000, 3000 milliseconds; every try that was
  followed by another failed with an error \<open>P\<close> accepts, so a failure \<open>P\<close> rejects is never
  retried, and a transport error met before the fourth try that \<open>P\<close> accepted would have
  been retried; a failure of the last try made is what the caller gets; and when each of
  the four tries fails with an error \<open>P\<close> accepts, all four are made, with the delays 1000,
  2000, 3000, before the fourth failure is surfaced.
\<close>

theorem retry_policy:
  "(let run = axios_request (createApi (axios_create_on net) P options) verb url body config calls;
        attempt = (\<lambda>n. settle verb (net verb url body config n));
        k = length (fst run)
    in tries run \<le> 4 \<and>
       fst run = take k [1000, 2000, 3000] \<and>
       (\<forall>i < k. \<exists>e. attempt i = Inl (ThrownAxiosError e) \<and> P e) \<and>
       (\<forall>e. k < 3 \<and> attempt k = Inl (ThrownAxiosError e) \<longrightarrow> \<not> P e) \<and>
       (\<forall>e. attempt k = Inl e \<longrightarrow> outcome_of run = Inl e) \<and>
       ((\<forall>i \<le> 3. \<exists>e. attempt i = Inl (ThrownAxiosError e) \<and> P e) \<longrightarrow>
          fst run = [1000, 2000, 3000] \<and> tries run = 4 \<and> outcome_of run = attempt 3))"
proof -
  let ?cfg = "retryConfig P"
  let ?hs = "[(onFulfilled options, onRejected)]"
  let ?attempt = "\<lambda>n. settle verb (net verb url body config n)"
  let ?run = "request_loop 3 ?cfg ?hs ?attempt 0 calls"
  let ?k = "length (fst ?run)"
  have delay: "retryDelay ?cfg = (\<lambda>retryCount. retryCount * 1000)"
    by (simp add: retryConfig_def)
  have k: "?k \<le> 3" by (rule request_loop_length)
  have "fst ?run = map (retryDelay ?cfg) [Suc 0 ..< Suc (0 + ?k)]"
    by (rule request_loop_delays) (rule refl)
  also have "\<dots> = take ?k [1000, 2000, 3000]"
    unfolding delay by (rule linear_delays [OF k])
  finally have delays: "fst ?run = take ?k [1000, 2000, 3000]" .
  have retried: "\<exists>e. ?attempt i = Inl (ThrownAxiosError e) \<and> P e" if "i < ?k" for i
    using request_loop_retried [of i 3 ?cfg ?hs ?attempt 0 calls] that
    by (simp add: retryable_retryConfig)
  have stops: "\<not> P e" if "?k < 3" and "?attempt ?k = Inl (ThrownAxiosError e)" for e
    using request_loop_stops [of 3 ?cfg ?hs ?attempt 0 calls] that
    by (simp add: retryConfig_def)
  have surfaced: "outcome_of ?run = Inl e" if "?attempt ?k = Inl e" for e
    using request_loop_rejected [of ?attempt 0 3 ?cfg "onFulfilled options" calls e] that
    by (simp add: outcome_of_def)
  have full: "fst ?run = [1000, 2000, 3000] \<and> tries ?run = 4 \<and> outcome_of ?run = ?attempt 3"
    if all: "\<forall>i \<le> 3. \<exists>e. ?attempt i = Inl (ThrownAxiosError e) \<and> P e"
  proof -
    have "?k = 3"
    proof (rule ccontr)
      assume "?k \<noteq> 3"
      with k have lt: "?k < 3" by simp
      then have "?k \<le> 3" by simp
      with all obtain e where e: "?attempt ?k = Inl (ThrownAxiosError e)" "P e" by blast
      from stops [OF lt e(1)] e(2) show False by simp
    qed
    then have k3: "?k = Suc (Suc (Suc 0))" by simp
    from all obtain e where e: "?attempt 3 = Inl (ThrownAxiosError e)" by blast
    from delays have d: "fst ?run = [1000, 2000, 3000]" unfolding k3 by simp
    have t: "tries ?run = 4" by (simp add: tries_def k3)
    from e have "?attempt ?k = Inl (ThrownAxiosError e)"
      unfolding k3 by (simp add: numeral_3_eq_3)
    from surfaced [OF this] e have "outcome_of ?run = ?attempt 3" by simp
    with d t show ?thesis by simp
  qed
  have t: "tries ?run \<le> 4" using k by (simp add: tries_def)
  have c3: "\<forall>i < ?k. \<exists>e. ?attempt i = Inl (ThrownAxiosError e) \<and> P e"
    using retried by blast
  have c4: "\<forall>e. ?k < 3 \<and> ?attempt ?k = Inl (ThrownAxiosError e) \<longrightarrow> \<not> P e"
    using stops by blast
  have c5: "\<forall>e. ?attempt ?k = Inl e \<longrightarrow> outcome_of ?run = Inl e"
    using surfaced by blast
  have c6: "(\<forall>i \<le> 3. \<exists>e. ?attempt i = Inl (ThrownAxiosError e) \<and> P e) \<longrightarrow>
      fst ?run = [1000, 2000, 3000] \<and> tries ?run = 4 \<and> outcome_of ?run = ?attempt 3"
    using full by blast
  from t delays c3 c4 c5 c6 show ?thesis
    unfolding Let_def createApi_request by blast
qed

theorem retry_policy_witness:
  "fst (axios_request
      (createApi (axios_create_on (always (Inl (ThrownAxiosError connection_refused))))
        isNetworkOrIdempotent first_options) ''get'' ''/users'' None None 0) =
     [1000, 2000, 3000] \<and>
   tries (axios_request
      (createApi (axios_create_on (always (Inl (ThrownAxiosError connection_refused))))
        isNetworkOrIdempotent first_options) ''get'' ''/users'' None None 0) = 4 \<and>
   outcome_of (axios_request
      (createApi (axios_create_on (always (Inl (ThrownAxiosError connection_refused))))
        isNetworkOrIdempotent first_options) ''get'' ''/users'' None None 0) =
     Inl (ThrownAxiosError connection_refused) \<and>
   tries (axios_request
      (createApi (axios_create_on (always (Inr \<lparr>data = JStr ''Bad Gateway'', status = 502\<rparr>)))
        isNetworkOrIdempotent first_options) ''get'' ''/users'' None None 0) = 4 \<and>
   tries (axios_request
      (createApi (axios_create_on (always (Inr \<lparr>data = JStr ''Bad Gateway'', status = 502\<rparr>)))
        isNetworkOrIdempotent first_options) ''post'' ''/users'' None None 0) = 1 \<and>
   tries (axios_request
      (createApi (axios_create_on (always (Inl (ThrownAxiosError timeout_error))))
        isNetworkOrIdempotent first_options) ''get'' ''/users'' None None 0) = 1"
proof -
  let ?run = "\<lambda>reply verb. axios_request
      (createApi (axios_create_on (always reply)) isNetworkOrIdempotent first_options)
      verb ''/users'' None None 0"
  have a: "fst (?run (Inl (ThrownAxiosError connection_refused)) ''get'') = [1000, 2000, 3000] \<and>
      tries (?run (Inl (ThrownAxiosError connection_refused)) ''get'') = 4 \<and>
      outcome_of (?run (Inl (ThrownAxiosError connection_refused)) ''get'') =
        Inl (ThrownAxiosError connection_refused)"
    using retry_policy [of "always (Inl (ThrownAxiosError connection_refused))"
        isNetworkOrIdempotent first_options "''get''" "''/users''" None None 0]
      retry_verdicts(1)
    by (simp add: Let_def always_def settle_thrown)
  have b: "tries (?run (Inr \<lparr>data = JStr ''Bad Gateway'', status = 502\<rparr>) ''get'') = 4"
    using retry_policy [of "always (Inr \<lparr>data = JStr ''Bad Gateway'', status = 502\<rparr>)"
        isNetworkOrIdempotent first_options "''get''" "''/users''" None None 0]
      retry_verdicts(2)
    by (simp add: Let_def always_def settle_def validateStatus_def)
  have c: "tries (?run (Inr \<lparr>data = JStr ''Bad Gateway'', status = 502\<rparr>) ''post'') = 1"
    using retry_policy [of "always (Inr \<lparr>data = JStr ''Bad Gateway'', status = 502\<rparr>)"
        isNetworkOrIdempotent first_options "''post''" "''/users''" None None 0]
      retry_verdicts(3)
    by (auto simp: Let_def always_def settle_def validateStatus_def tries_def)
  have d: "tries (?run (Inl (ThrownAxiosError timeout_error)) ''get'') = 1"
    using retry_policy [of "always (Inl (ThrownAxiosError timeout_error))"
        isNetworkOrIdempotent first_options "''get''" "''/users''" None None 0]
      retry_verdicts(4)
    by (auto simp: Let_def always_def settle_thrown tries_def)
  from a b c d show ?thesis by simp
qed




end
